theory Spec2Isabelle
  imports Complex_Main
begin

section \<open>Python values, exceptions and outcomes\<close>

text \<open>
  A raised Python exception, as far as the request handler can observe it: whether it is
  an instance of class \<open>Exception\<close> (the test of the clause \<open>except Exception as e\<close>; it is
  False for the signals that derive from \<open>BaseException\<close> only, such as
  \<open>KeyboardInterrupt\<close> and \<open>SystemExit\<close>) and what \<open>str(e)\<close> gives.
\<close>

datatype py_exn = PyExn (isinstance_Exception: bool) (str_exn: string)

text \<open>
  What a call of a Python function does at its public interface: it returns a value or
  an exception leaves it.
\<close>

datatype 'a outcome = Returned 'a | Propagated py_exn

text \<open>
  Python raises \<open>NameError\<close>, a subclass of \<open>Exception\<close>, when a global name is read
  before any assignment to it.
\<close>

definition NameError :: "string \<Rightarrow> py_exn" where
  "NameError name = PyExn True (''name '' @ [CHR 0x27] @ name @ [CHR 0x27] @ '' is not defined'')"

section \<open>Tables\<close>

text \<open>
  A cell of a table is an integer or a double. Doubles are idealised as reals: the cells
  are only carried around and compared, except in the evaluation metric of the training
  stage.
\<close>

datatype cell = IntegerV int | DoubleV real

datatype dtype = DoubleType | IntegerType | LongType

text \<open>
  A data frame: the columns, each with its name, its type and whether it admits nulls,
  and the rows in their order.
\<close>

record data_frame =
  schema :: "(string \<times> dtype \<times> bool) list"
  rows :: "cell list list"

definition columns :: "data_frame \<Rightarrow> string list" where
  "columns df = map fst (schema df)"

text \<open>A row read by column name, as a \<open>Row\<close> object is.\<close>

definition row_dict :: "data_frame \<Rightarrow> cell list \<Rightarrow> (string \<times> cell) list" where
  "row_dict df r = zip (columns df) r"

section \<open>The pipeline as a capability\<close>

text \<open>
  The fitted pipeline is an object of the external ML library. The handler uses two of
  its capabilities: \<open>transform\<close>, which returns a scored data frame or raises, and
  \<open>collect\<close> on the scored frame, which returns the rows or raises (the engine is lazy, so
  a failure of the computation appears only there). A collected row carries the cells of
  the input row, the label when the target column was present, and the prediction.
\<close>

record scored_row =
  row_fields :: "(string \<times> cell) list"
  label :: "real option"
  prediction :: real

record scored_frame =
  collect :: "py_exn + scored_row list"

record pipeline_model =
  transform :: "data_frame \<Rightarrow> py_exn + scored_frame"

section \<open>The scoring wrapper \<open>score.py\<close>\<close>

text \<open>
  The state of the scoring process: the module's global \<open>pipeline\<close> (None while the name
  is unbound) and the persisted artifacts, given as what \<open>PipelineModel.load\<close> yields at
  each path: the pipeline saved there, or the library's error where nothing loadable is.
\<close>

record state =
  pipeline :: "pipeline_model option"
  files :: "string \<Rightarrow> py_exn + pipeline_model"

text \<open>
  \<^verbatim>\<open>
  def init():
      from pyspark.ml import PipelineModel
      global pipeline
      pipeline = PipelineModel.load("housing.model")
  \<close>
  An error of the load leaves \<open>init\<close> before the assignment.
\<close>

definition init :: "state \<Rightarrow> unit outcome \<times> state" where
  "init s =
     (case files s ''housing.model'' of
        Inl e \<Rightarrow> (Propagated e, s)
      | Inr loaded \<Rightarrow> (Returned (), s\<lparr>pipeline := Some loaded\<rparr>))"

text \<open>
  The loop of the handler,
  \<^verbatim>\<open>
  for pred in predictions:
      response += str(pred['prediction']) + ","
  \<close>
  with the accumulated response as an argument. \<open>str_float\<close> is Python's \<open>str\<close> on a float.
\<close>

fun score_loop :: "(real \<Rightarrow> string) \<Rightarrow> scored_row list \<Rightarrow> string \<Rightarrow> string" where
  "score_loop str_float [] response = response"
| "score_loop str_float (pred # predictions) response =
     score_loop str_float predictions (response @ str_float (prediction pred) @ '','')"

text \<open>
  The body of the \<open>try\<close> block, with the exception that ends it as \<open>Inl\<close>:
  \<^verbatim>\<open>
  score = pipeline.transform(input_df)
  predictions = score.collect()
  for pred in predictions: ...
  response = response[:-1]
  \<close>
  Reading the global \<open>pipeline\<close> raises \<open>NameError\<close> while it is unbound. The slice
  \<open>response[:-1]\<close> drops the last character and leaves the empty string empty, as
  \<open>butlast\<close> does.
\<close>

definition run_try :: "(real \<Rightarrow> string) \<Rightarrow> pipeline_model option \<Rightarrow> data_frame \<Rightarrow> py_exn + string" where
  "run_try str_float global_pipeline input_df =
     (case global_pipeline of
        None \<Rightarrow> Inl (NameError ''pipeline'')
      | Some pm \<Rightarrow>
          (case transform pm input_df of
             Inl e \<Rightarrow> Inl e
           | Inr score \<Rightarrow>
               (case collect score of
                  Inl e \<Rightarrow> Inl e
                | Inr predictions \<Rightarrow> Inr (butlast (score_loop str_float predictions '''')))))"

text \<open>
  \<^verbatim>\<open>
  def run(input_df):
      response = ''
      try:
          ...
      except Exception as e:
          return (str(e))
      return response
  \<close>
  The handler has no \<open>global\<close> declaration and no assignment to \<open>pipeline\<close>: the state it
  returns is the state it was called in.
\<close>

definition run :: "(real \<Rightarrow> string) \<Rightarrow> data_frame \<Rightarrow> state \<Rightarrow> string outcome \<times> state" where
  "run str_float input_df s =
     (case run_try str_float (pipeline s) input_df of
        Inl e \<Rightarrow> (if isinstance_Exception e then (Returned (str_exn e), s) else (Propagated e, s))
      | Inr response \<Rightarrow> (Returned response, s))"

text \<open>A sequence of scoring calls, each in the state the one before left.\<close>

fun run_all :: "(real \<Rightarrow> string) \<Rightarrow> data_frame list \<Rightarrow> state \<Rightarrow> string outcome list \<times> state" where
  "run_all str_float [] s = ([], s)"
| "run_all str_float (input_df # requests) s =
     (let (result, s') = run str_float input_df s;
          (results, s'') = run_all str_float requests s'
      in (result # results, s''))"

section \<open>The library's fitted pipeline\<close>

text \<open>
  The pipeline that the training stage fits and the scoring wrapper loads belongs to the
  external ML library. The definitions of this section give it the behaviour the spec
  describes.
\<close>

text \<open>
  Modelled from the spec: the feature cells of a row, by name, in the trained order (the
  library assembles them); None where the row has no cell of that name.
\<close>

definition feature_vector :: "string list \<Rightarrow> (string \<times> cell) list \<Rightarrow> cell option list" where
  "feature_vector feature_cols row = map (map_of row) feature_cols"

text \<open>Modelled from the spec: the library's cast of a numeric cell to double.\<close>

fun as_double :: "cell \<Rightarrow> real" where
  "as_double (IntegerV i) = real_of_int i"
| "as_double (DoubleV x) = x"

text \<open>
  Modelled from the spec: the prediction the fitted pipeline gives a row of a table, the
  opaque fitted regressor on the row's feature vector.
\<close>

definition predict_row ::
  "string list \<Rightarrow> (cell option list \<Rightarrow> real) \<Rightarrow> data_frame \<Rightarrow> cell list \<Rightarrow> real" where
  "predict_row feature_cols predictor df r = predictor (feature_vector feature_cols (row_dict df r))"

text \<open>
  Modelled from the spec: the scored row the library makes of an input row; the label is
  the target cell as a double when the table has the target column.
\<close>

definition score_row ::
  "string \<Rightarrow> string list \<Rightarrow> (cell option list \<Rightarrow> real) \<Rightarrow> data_frame \<Rightarrow> cell list \<Rightarrow> scored_row" where
  "score_row label_col feature_cols predictor df r =
     \<lparr>row_fields = row_dict df r,
      label = map_option as_double (map_of (row_dict df r) label_col),
      prediction = predict_row feature_cols predictor df r\<rparr>"

text \<open>
  Modelled from the spec: the transform of the external library's fitted pipeline, which is
  not part of the repository. The pipeline was fitted on \<open>feature_cols\<close> (the columns of
  the training table minus the target column); a table that lacks one of them is the
  library-reported failure of the spec, an exception of the library (all its error classes
  derive from \<open>Exception\<close>) whose text \<open>lib_msg\<close> is the library's. Otherwise there is one
  scored row per input row, in row order, whose prediction is the fitted regressor
  \<open>predictor\<close> on the row's feature cells, taken by name in the trained order. Columns
  beyond the trained ones are ignored, as on the notebook's own sample input, which has a
  column \<open>B\<close> the training table lacks.
\<close>

definition fitted_pipeline ::
  "(string \<Rightarrow> string) \<Rightarrow> string \<Rightarrow> string list \<Rightarrow> (cell option list \<Rightarrow> real) \<Rightarrow> pipeline_model" where
  "fitted_pipeline lib_msg label_col feature_cols predictor =
     \<lparr>transform = (\<lambda>df.
        (case filter (\<lambda>c. c \<notin> set (columns df)) feature_cols of
           c # _ \<Rightarrow> Inl (PyExn True (lib_msg c))
         | [] \<Rightarrow> Inr \<lparr>collect = Inr (map (score_row label_col feature_cols predictor df) (rows df))\<rparr>))\<rparr>"

section \<open>Comma-separated renderings\<close>

text \<open>
  The response as the spec words it: the tokens joined by commas, with no comma after
  the last one.
\<close>

fun comma_join :: "string list \<Rightarrow> string" where
  "comma_join [] = []"
| "comma_join [t] = t"
| "comma_join (t # u # ts) = t @ '','' @ comma_join (u # ts)"

text \<open>
  Reading a response back: Python's \<open>s.split(',')\<close>, and the token list of a response,
  where the empty response holds no token.
\<close>

fun split_commas :: "string \<Rightarrow> string list" where
  "split_commas [] = [[]]"
| "split_commas (c # cs) =
     (if c = CHR '','' then [] # split_commas cs
      else (case split_commas cs of [] \<Rightarrow> [[c]] | t # ts \<Rightarrow> (c # t) # ts))"

definition tokens_of :: "string \<Rightarrow> string list" where
  "tokens_of s = (if s = [] then [] else split_commas s)"

text \<open>
  A numeric token: not empty and written with the characters of Python's \<open>str\<close> on a
  float only (decimal digits, sign, point, exponent mark, and the letters of \<open>inf\<close> and
  \<open>nan\<close>).
\<close>

definition float_char :: "char \<Rightarrow> bool" where
  "float_char c = (c \<in> set ''0123456789+-.einfa'')"

definition numeric_token :: "string \<Rightarrow> bool" where
  "numeric_token t = (t \<noteq> [] \<and> list_all float_char t)"

text \<open>The tokens of a response: the prediction of each row of the table, rendered, in row order.\<close>

definition prediction_tokens ::
  "(real \<Rightarrow> string) \<Rightarrow> string list \<Rightarrow> (cell option list \<Rightarrow> real) \<Rightarrow> data_frame \<Rightarrow> string list" where
  "prediction_tokens str_float feature_cols predictor input_df =
     map (\<lambda>r. str_float (predict_row feature_cols predictor input_df r)) (rows input_df)"

section \<open>The notebook's cells\<close>

subsection \<open>Training and evaluation\<close>

text \<open>
  The training cell:
  \<^verbatim>\<open>
  formula = RFormula(formula="MEDV~.")
  gbt = GBTRegressor()
  pipeline = Pipeline(stages=[formula, gbt]).fit(df2)
  \<close>
  The formula makes \<open>MEDV\<close> the target and every other column of the table a feature.
\<close>

definition training_features :: "data_frame \<Rightarrow> string list" where
  "training_features df2 = filter (\<lambda>c. c \<noteq> ''MEDV'') (columns df2)"

text \<open>
  Modelled from the spec: the library's fit of the two stages, which is not part of the
  repository. The regressor that the gradient-boosted trees learn from the table is the
  opaque \<open>trainer\<close>. None stands for an error of the library, which ends the cell.
\<close>

definition fit ::
  "(string \<Rightarrow> string) \<Rightarrow> (data_frame \<Rightarrow> cell option list \<Rightarrow> real) \<Rightarrow> data_frame \<Rightarrow> pipeline_model option" where
  "fit lib_msg trainer df2 =
     (if ''MEDV'' \<in> set (columns df2)
      then Some (fitted_pipeline lib_msg ''MEDV'' (training_features df2) (trainer df2))
      else None)"

text \<open>
  Modelled from the spec: the library's metric \<open>r2\<close>, the coefficient of determination of
  predicted against actual values, over exact reals in place of doubles. Each pair is a
  prediction and the actual value. None where the total sum of squares is 0 and the
  quotient is no number.
\<close>

definition r2 :: "(real \<times> real) list \<Rightarrow> real option" where
  "r2 pairs =
     (let actual = map snd pairs;
          mean = sum_list actual / real (length actual);
          ss_res = sum_list (map (\<lambda>(predicted, y). (y - predicted)\<^sup>2) pairs);
          ss_tot = sum_list (map (\<lambda>y. (y - mean)\<^sup>2) actual)
      in if ss_tot = 0 then None else Some (1 - ss_res / ss_tot))"

text \<open>
  Modelled from the spec: \<open>RegressionEvaluator(metricName="r2").evaluate(scores)\<close> of the
  library, the metric over the columns \<open>prediction\<close> and \<open>label\<close> of the scored rows.
  None stands for an error of the library (a failed computation, or rows without a label).
\<close>

definition evaluate :: "scored_frame \<Rightarrow> real option" where
  "evaluate scores =
     (case collect scores of
        Inl e \<Rightarrow> None
      | Inr scored \<Rightarrow>
          (case those (map label scored) of
             None \<Rightarrow> None
           | Some labels \<Rightarrow> r2 (zip (map prediction scored) labels)))"

text \<open>
  The two training cells together:
  \<^verbatim>\<open>
  pipeline = Pipeline(stages=[formula, gbt]).fit(df2)
  scores = pipeline.transform(df2)
  print("R^2 error = " + str(RegressionEvaluator(metricName="r2").evaluate(scores)))
  \<close>
\<close>

definition training_stage ::
  "(string \<Rightarrow> string) \<Rightarrow> (data_frame \<Rightarrow> cell option list \<Rightarrow> real) \<Rightarrow> data_frame \<Rightarrow> (pipeline_model \<times> real) option" where
  "training_stage lib_msg trainer df2 =
     (case fit lib_msg trainer df2 of
        None \<Rightarrow> None
      | Some fitted \<Rightarrow>
          (case transform fitted df2 of
             Inl e \<Rightarrow> None
           | Inr scores \<Rightarrow>
               (case evaluate scores of
                  None \<Rightarrow> None
                | Some score \<Rightarrow> Some (fitted, score))))"

text \<open>The actual target value of a row of the training table, as a double.\<close>

definition target_value :: "data_frame \<Rightarrow> cell list \<Rightarrow> real option" where
  "target_value df2 r = map_option as_double (map_of (row_dict df2 r) ''MEDV'')"

subsection \<open>Persistence\<close>

text \<open>
  Modelled from the spec: the library's writer and loader, which are not part of the
  repository. \<open>pipeline.write().overwrite().save(path)\<close> replaces whatever the target
  location held, and loading the location afterwards yields the pipeline that was saved.
  The notebook saves to \<open>housing.model\<close>, the path \<open>init\<close> loads.
\<close>

definition save_overwrite :: "string \<Rightarrow> pipeline_model \<Rightarrow> state \<Rightarrow> state" where
  "save_overwrite path fitted s = s\<lparr>files := (files s)(path := Inr fitted)\<rparr>"

subsection \<open>Schema generation\<close>

text \<open>
  Modelled from the spec: the column-drop operation of the table library, as in
  \<open>df2.drop("MEDV")\<close>: the table without the column of that name.
\<close>

definition drop_column :: "string \<Rightarrow> data_frame \<Rightarrow> data_frame" where
  "drop_column c table =
     \<lparr>schema = filter (\<lambda>(name, t). name \<noteq> c) (schema table),
      rows = map (\<lambda>r. map snd (filter (\<lambda>(name, v). name \<noteq> c) (row_dict table r))) (rows table)\<rparr>"

text \<open>
  \<open>inputs = {"input_df": SampleDefinition(DataTypes.SPARK, df2.drop("MEDV"))}\<close>: the
  sample input, keyed by the handler's parameter name.
\<close>

definition inputs :: "data_frame \<Rightarrow> (string \<times> data_frame) list" where
  "inputs df2 = [(''input_df'', drop_column ''MEDV'' df2)]"

record struct_field =
  metadata :: "(string \<times> string) list"
  name :: string
  nullable :: bool
  type :: string

record swagger_property =
  format :: string
  property_type :: string

record input_schema =
  internal_fields :: "struct_field list"
  swagger_example :: "(string \<times> cell) list list"
  swagger_properties :: "(string \<times> swagger_property) list"

text \<open>
  Modelled from the spec: the names of the column types in the structural view, as the
  notebook's recorded schema output writes them.
\<close>

fun type_name :: "dtype \<Rightarrow> string" where
  "type_name DoubleType = ''double''"
| "type_name IntegerType = ''integer''"
| "type_name LongType = ''long''"

text \<open>
  Modelled from the spec: the swagger property of a column type: double becomes
  number/double and integer becomes integer/int32. The spec names these two; a 64-bit
  column is given the 64-bit integer format.
\<close>

fun swagger_of :: "dtype \<Rightarrow> swagger_property" where
  "swagger_of DoubleType = \<lparr>format = ''double'', property_type = ''number''\<rparr>"
| "swagger_of IntegerType = \<lparr>format = ''int32'', property_type = ''integer''\<rparr>"
| "swagger_of LongType = \<lparr>format = ''int64'', property_type = ''integer''\<rparr>"

text \<open>
  Modelled from the spec: the schema document of one sample input, as \<open>generate_schema\<close>
  of the deployment SDK makes it; the SDK is not part of the repository. It has the two
  views of the spec: the structural field list (name, type and nullability of each column
  of the sample) and the swagger view, with one property per column and example rows
  drawn from the sample. The examples are the first three rows of the sample: the
  notebook's recorded output lists exactly three example rows, the first rows of the
  table, for a sample that is the whole training table without \<open>MEDV\<close>.
\<close>

definition schema_of :: "data_frame \<Rightarrow> input_schema" where
  "schema_of sample =
     \<lparr>internal_fields =
        map (\<lambda>(c, t, n). \<lparr>metadata = [], name = c, nullable = n, type = type_name t\<rparr>) (schema sample),
      swagger_example = map (row_dict sample) (take 3 (rows sample)),
      swagger_properties = map (\<lambda>(c, t, n). (c, swagger_of t)) (schema sample)\<rparr>"

text \<open>
  Modelled from the spec: \<open>generate_schema(run_func=score.run, inputs=inputs, ...)\<close> of the
  SDK, one schema document per sample input, keyed by the handler's parameter name.
\<close>

definition generate_schema :: "(string \<times> data_frame) list \<Rightarrow> (string \<times> input_schema) list" where
  "generate_schema samples = map (\<lambda>(parameter, sample). (parameter, schema_of sample)) samples"

subsection \<open>The housing data and the sample input\<close>

text \<open>
  The feature columns of the housing table, as the notebook's schema output lists them:
  name, type, and nullable throughout.
\<close>

definition housing_schema :: "(string \<times> dtype \<times> bool) list" where
  "housing_schema =
     [(''CRIM'', DoubleType, True), (''ZN'', DoubleType, True), (''INDUS'', DoubleType, True),
      (''CHAS'', IntegerType, True), (''NOX'', DoubleType, True), (''RM'', DoubleType, True),
      (''AGE'', DoubleType, True), (''DIS'', DoubleType, True), (''RAD'', IntegerType, True),
      (''TAX'', IntegerType, True), (''PTRATIO'', DoubleType, True), (''LSTAT'', DoubleType, True)]"

text \<open>
  \<^verbatim>\<open>
  input_data = [[0.00632, 18.0, 2.31, 0, 0.538, 6.575, 65.2, 4.09, 1, 296, 15.3, 4.98, 24.0],
                [0.00632, 59.0, 2.31, 0, 0.538, 6.575, 65.2, 4.09, 1, 296, 15.3, 4.98, 24.0],
                [0.00332, 76.0, 2.31, 0, 0.538, 6.575, 65.2, 4.09, 1, 296, 15.3, 4.98, 12.0]]
  df = spark.createDataFrame(input_data, ["CRIM", "ZN", "INDUS", "CHAS", "NOX", "RM", "AGE",
                                          "DIS", "RAD", "TAX", "PTRATIO", "B", "LSTAT"])
  \<close>
  The types are the ones \<open>createDataFrame\<close> infers: double for a float, long for an int,
  every column nullable.
\<close>

definition input_data :: "cell list list" where
  "input_data =
     [[DoubleV 0.00632, DoubleV 18.0, DoubleV 2.31, IntegerV 0, DoubleV 0.538, DoubleV 6.575,
       DoubleV 65.2, DoubleV 4.09, IntegerV 1, IntegerV 296, DoubleV 15.3, DoubleV 4.98, DoubleV 24.0],
      [DoubleV 0.00632, DoubleV 59.0, DoubleV 2.31, IntegerV 0, DoubleV 0.538, DoubleV 6.575,
       DoubleV 65.2, DoubleV 4.09, IntegerV 1, IntegerV 296, DoubleV 15.3, DoubleV 4.98, DoubleV 24.0],
      [DoubleV 0.00332, DoubleV 76.0, DoubleV 2.31, IntegerV 0, DoubleV 0.538, DoubleV 6.575,
       DoubleV 65.2, DoubleV 4.09, IntegerV 1, IntegerV 296, DoubleV 15.3, DoubleV 4.98, DoubleV 12.0]]"

definition df :: data_frame where
  "df =
     \<lparr>schema =
        [(''CRIM'', DoubleType, True), (''ZN'', DoubleType, True), (''INDUS'', DoubleType, True),
         (''CHAS'', LongType, True), (''NOX'', DoubleType, True), (''RM'', DoubleType, True),
         (''AGE'', DoubleType, True), (''DIS'', DoubleType, True), (''RAD'', LongType, True),
         (''TAX'', LongType, True), (''PTRATIO'', DoubleType, True), (''B'', DoubleType, True),
         (''LSTAT'', DoubleType, True)],
      rows = input_data\<rparr>"

section \<open>A small instance\<close>

text \<open>
  A rendering of floats, a regressor, a table and a process state on which the theorems
  below are instantiated.
\<close>

definition example_str_float :: "real \<Rightarrow> string" where
  "example_str_float x = (if x = 2 then ''2.0'' else if x = 4 then ''4.0'' else ''0.5'')"

definition example_predictor :: "cell option list \<Rightarrow> real" where
  "example_predictor v = (case v of [Some c] \<Rightarrow> 2 * as_double c | _ \<Rightarrow> 0)"

definition example_msg :: "string \<Rightarrow> string" where
  "example_msg c = ''no field '' @ c"

definition example_pipeline :: pipeline_model where
  "example_pipeline = fitted_pipeline example_msg ''MEDV'' [''RM''] example_predictor"

definition example_table :: data_frame where
  "example_table = \<lparr>schema = [(''RM'', DoubleType, True)], rows = [[DoubleV 1], [DoubleV 2]]\<rparr>"

definition no_files :: "string \<Rightarrow> py_exn + pipeline_model" where
  "no_files path = Inl (PyExn True (''Input path does not exist: '' @ path))"

definition example_state :: state where
  "example_state = \<lparr>pipeline = Some example_pipeline, files = no_files\<rparr>"

text \<open>A pipeline whose transform raises on an empty table and whose collect raises otherwise.\<close>

definition example_failing :: pipeline_model where
  "example_failing = \<lparr>transform = (\<lambda>table.
      if rows table = [] then Inl (PyExn True ''empty table'')
      else Inr \<lparr>collect = Inl (PyExn True ''job aborted'')\<rparr>)\<rparr>"

definition unbound_state :: state where
  "unbound_state = \<lparr>pipeline = None, files = no_files\<rparr>"

definition example_empty :: data_frame where
  "example_empty = \<lparr>schema = [(''RM'', DoubleType, True), (''B'', DoubleType, True)], rows = []\<rparr>"

definition example_other :: data_frame where
  "example_other = \<lparr>schema = [(''B'', DoubleType, True)], rows = [[DoubleV 1]]\<rparr>"

definition zn_predictor :: "cell option list \<Rightarrow> real" where
  "zn_predictor v = (case v of crim # Some zn # rest \<Rightarrow> as_double zn | _ \<Rightarrow> 0)"

definition zn_str_float :: "real \<Rightarrow> string" where
  "zn_str_float x =
     (if x = 18 then ''18.0'' else if x = 59 then ''59.0'' else if x = 76 then ''76.0'' else ''0.5'')"

definition housing_state :: state where
  "housing_state =
     save_overwrite ''housing.model''
       (fitted_pipeline example_msg ''MEDV'' (map fst housing_schema) zn_predictor)
       unbound_state"

definition example_training_table :: data_frame where
  "example_training_table =
     \<lparr>schema = [(''RM'', DoubleType, True), (''MEDV'', DoubleType, True)],
      rows = [[DoubleV 1, DoubleV 3], [DoubleV 2, DoubleV 4], [DoubleV 3, DoubleV 8]]\<rparr>"

definition example_trainer :: "data_frame \<Rightarrow> cell option list \<Rightarrow> real" where
  "example_trainer table = example_predictor"

text \<open>
  The three example rows of the notebook's recorded schema output, in column order.
\<close>

definition housing_head :: "cell list list" where
  "housing_head =
     [[DoubleV 0.00632, DoubleV 18.0, DoubleV 2.31, IntegerV 0, DoubleV 0.538, DoubleV 6.575,
       DoubleV 65.2, DoubleV 4.09, IntegerV 1, IntegerV 296, DoubleV 15.3, DoubleV 4.98],
      [DoubleV 0.02731, DoubleV 0.0, DoubleV 7.07, IntegerV 0, DoubleV 0.469, DoubleV 6.421,
       DoubleV 78.9, DoubleV 4.9671, IntegerV 2, IntegerV 242, DoubleV 17.8, DoubleV 9.14],
      [DoubleV 0.02729, DoubleV 0.0, DoubleV 7.07, IntegerV 0, DoubleV 0.469, DoubleV 7.185,
       DoubleV 61.1, DoubleV 4.9671, IntegerV 2, IntegerV 242, DoubleV 17.8, DoubleV 4.03]]"

text \<open>
  A training table of five rows with the housing columns and the target column: its first
  three rows are the recorded ones, each with a target value; two further rows stand for
  the rest of the table.
\<close>

definition housing_table :: data_frame where
  "housing_table =
     \<lparr>schema = housing_schema @ [(''MEDV'', DoubleType, True)],
      rows = map (\<lambda>r. r @ [DoubleV 24.0])
        (housing_head @
         [[DoubleV 0.03237, DoubleV 0.0, DoubleV 2.18, IntegerV 0, DoubleV 0.458, DoubleV 6.998,
           DoubleV 45.8, DoubleV 6.0622, IntegerV 3, IntegerV 222, DoubleV 18.7, DoubleV 2.94],
          [DoubleV 0.06905, DoubleV 0.0, DoubleV 2.18, IntegerV 0, DoubleV 0.458, DoubleV 7.147,
           DoubleV 54.2, DoubleV 6.0622, IntegerV 3, IntegerV 222, DoubleV 18.7, DoubleV 5.33]])\<rparr>"

text \<open>
  The notebook's recorded schema output for \<open>input_df\<close>, with the entries of each
  dictionary in column order.
\<close>

definition recorded_schema :: input_schema where
  "recorded_schema =
     \<lparr>internal_fields =
        [\<lparr>metadata = [], name = ''CRIM'', nullable = True, type = ''double''\<rparr>,
         \<lparr>metadata = [], name = ''ZN'', nullable = True, type = ''double''\<rparr>,
         \<lparr>metadata = [], name = ''INDUS'', nullable = True, type = ''double''\<rparr>,
         \<lparr>metadata = [], name = ''CHAS'', nullable = True, type = ''integer''\<rparr>,
         \<lparr>metadata = [], name = ''NOX'', nullable = True, type = ''double''\<rparr>,
         \<lparr>metadata = [], name = ''RM'', nullable = True, type = ''double''\<rparr>,
         \<lparr>metadata = [], name = ''AGE'', nullable = True, type = ''double''\<rparr>,
         \<lparr>metadata = [], name = ''DIS'', nullable = True, type = ''double''\<rparr>,
         \<lparr>metadata = [], name = ''RAD'', nullable = True, type = ''integer''\<rparr>,
         \<lparr>metadata = [], name = ''TAX'', nullable = True, type = ''integer''\<rparr>,
         \<lparr>metadata = [], name = ''PTRATIO'', nullable = True, type = ''double''\<rparr>,
         \<lparr>metadata = [], name = ''LSTAT'', nullable = True, type = ''double''\<rparr>],
      swagger_example =
        [[(''CRIM'', DoubleV 0.00632), (''ZN'', DoubleV 18.0), (''INDUS'', DoubleV 2.31),
          (''CHAS'', IntegerV 0), (''NOX'', DoubleV 0.538), (''RM'', DoubleV 6.575),
          (''AGE'', DoubleV 65.2), (''DIS'', DoubleV 4.09), (''RAD'', IntegerV 1),
          (''TAX'', IntegerV 296), (''PTRATIO'', DoubleV 15.3), (''LSTAT'', DoubleV 4.98)],
         [(''CRIM'', DoubleV 0.02731), (''ZN'', DoubleV 0.0), (''INDUS'', DoubleV 7.07),
          (''CHAS'', IntegerV 0), (''NOX'', DoubleV 0.469), (''RM'', DoubleV 6.421),
          (''AGE'', DoubleV 78.9), (''DIS'', DoubleV 4.9671), (''RAD'', IntegerV 2),
          (''TAX'', IntegerV 242), (''PTRATIO'', DoubleV 17.8), (''LSTAT'', DoubleV 9.14)],
         [(''CRIM'', DoubleV 0.02729), (''ZN'', DoubleV 0.0), (''INDUS'', DoubleV 7.07),
          (''CHAS'', IntegerV 0), (''NOX'', DoubleV 0.469), (''RM'', DoubleV 7.185),
          (''AGE'', DoubleV 61.1), (''DIS'', DoubleV 4.9671), (''RAD'', IntegerV 2),
          (''TAX'', IntegerV 242), (''PTRATIO'', DoubleV 17.8), (''LSTAT'', DoubleV 4.03)]],
      swagger_properties =
        [(''CRIM'', \<lparr>format = ''double'', property_type = ''number''\<rparr>),
         (''ZN'', \<lparr>format = ''double'', property_type = ''number''\<rparr>),
         (''INDUS'', \<lparr>format = ''double'', property_type = ''number''\<rparr>),
         (''CHAS'', \<lparr>format = ''int32'', property_type = ''integer''\<rparr>),
         (''NOX'', \<lparr>format = ''double'', property_type = ''number''\<rparr>),
         (''RM'', \<lparr>format = ''double'', property_type = ''number''\<rparr>),
         (''AGE'', \<lparr>format = ''double'', property_type = ''number''\<rparr>),
         (''DIS'', \<lparr>format = ''double'', property_type = ''number''\<rparr>),
         (''RAD'', \<lparr>format = ''int32'', property_type = ''integer''\<rparr>),
         (''TAX'', \<lparr>format = ''int32'', property_type = ''integer''\<rparr>),
         (''PTRATIO'', \<lparr>format = ''double'', property_type = ''number''\<rparr>),
         (''LSTAT'', \<lparr>format = ''double'', property_type = ''number''\<rparr>)]\<rparr>"

text \<open>A sample of one column and four rows.\<close>

definition four_rows :: data_frame where
  "four_rows =
     \<lparr>schema = [(''RM'', DoubleType, True)],
      rows = [[DoubleV 1], [DoubleV 2], [DoubleV 3], [DoubleV 4]]\<rparr>"

section \<open>Properties of the rendering\<close>

lemma score_loop_append:
  "score_loop str_float predictions response =
     response @ concat (map (\<lambda>pred. str_float (prediction pred) @ '','') predictions)"
  by (induction predictions arbitrary: response) simp_all

lemma butlast_concat_comma:
  "butlast (concat (map (\<lambda>t. t @ '','') ts)) = comma_join ts"
proof (induction ts rule: comma_join.induct)
  case 1
  show ?case by simp
next
  case (2 t)
  show ?case by simp
next
  case (3 t u ts)
  have "concat (map (\<lambda>t. t @ '','') (u # ts)) \<noteq> []" by simp
  then have "butlast (concat (map (\<lambda>t. t @ '','') (t # u # ts))) =
      t @ '','' @ butlast (concat (map (\<lambda>t. t @ '','') (u # ts)))"
    by (simp add: butlast_append)
  with 3 show ?case by simp
qed

lemma score_loop_comma_join:
  "butlast (score_loop str_float predictions '''') =
     comma_join (map (\<lambda>pred. str_float (prediction pred)) predictions)"
proof -
  have "score_loop str_float predictions '''' =
      concat (map (\<lambda>t. t @ '','') (map (\<lambda>pred. str_float (prediction pred)) predictions))"
    by (simp add: score_loop_append comp_def)
  then show ?thesis
    by (simp only: butlast_concat_comma)
qed

lemma split_commas_nonempty: "split_commas s \<noteq> []"
  by (induction s) (auto split: list.splits)

lemma split_commas_token:
  "CHR '','' \<notin> set t \<Longrightarrow> split_commas (t @ CHR '','' # rest) = t # split_commas rest"
  by (induction t) auto

lemma split_commas_last: "CHR '','' \<notin> set t \<Longrightarrow> split_commas t = [t]"
  by (induction t) auto

lemma split_commas_comma_join:
  "ts \<noteq> [] \<Longrightarrow> \<forall>t \<in> set ts. CHR '','' \<notin> set t \<Longrightarrow> split_commas (comma_join ts) = ts"
proof (induction ts rule: comma_join.induct)
  case 1
  then show ?case by simp
next
  case (2 t)
  then show ?case by (simp add: split_commas_last)
next
  case (3 t u ts)
  then show ?case by (simp add: split_commas_token)
qed

lemma comma_not_float_char: "\<not> float_char (CHR '','')"
  by (simp add: float_char_def)

lemma numeric_token_no_comma: "numeric_token t \<Longrightarrow> CHR '','' \<notin> set t"
  using comma_not_float_char by (auto simp: numeric_token_def list_all_iff)

lemma comma_join_empty_iff: "comma_join ts = [] \<longleftrightarrow> (ts = [] \<or> ts = [[]])"
  by (induction ts rule: comma_join.induct) auto

lemma tokens_of_comma_join:
  assumes "list_all numeric_token ts"
  shows "tokens_of (comma_join ts) = ts"
proof (cases "ts = []")
  case True
  then show ?thesis by (simp add: tokens_of_def)
next
  case False
  from assms have numeric: "\<forall>t \<in> set ts. numeric_token t"
    by (simp add: list_all_iff)
  then have nonempty: "\<forall>t \<in> set ts. t \<noteq> []"
    by (simp add: numeric_token_def)
  from numeric have no_comma: "\<forall>t \<in> set ts. CHR '','' \<notin> set t"
    by (blast dest: numeric_token_no_comma)
  from False nonempty have "comma_join ts \<noteq> []"
    by (auto simp: comma_join_empty_iff)
  with False no_comma show ?thesis
    by (simp add: tokens_of_def split_commas_comma_join)
qed

lemma last_comma_join:
  "ts \<noteq> [] \<Longrightarrow> last ts \<noteq> [] \<Longrightarrow> last (comma_join ts) = last (last ts)"
  by (induction ts rule: comma_join.induct) (auto simp: comma_join_empty_iff)

lemma no_trailing_comma:
  assumes "list_all numeric_token ts"
  shows "comma_join ts = [] \<or> last (comma_join ts) \<noteq> CHR '',''"
proof (cases "ts = []")
  case True
  then show ?thesis by simp
next
  case False
  then have "last ts \<in> set ts" by simp
  with assms have numeric: "numeric_token (last ts)"
    by (simp add: list_all_iff)
  then have "last ts \<noteq> []" by (simp add: numeric_token_def)
  then have "last (last ts) \<in> set (last ts)" by simp
  with numeric have "last (last ts) \<noteq> CHR '',''"
    using numeric_token_no_comma by metis
  with False \<open>last ts \<noteq> []\<close> show ?thesis
    by (simp add: last_comma_join)
qed

section \<open>Properties of the handler\<close>

lemma run_state: "snd (run str_float input_df s) = s"
  by (simp add: run_def split: sum.splits)

lemma run_all_state: "snd (run_all str_float requests s) = s"
proof (induction requests arbitrary: s)
  case Nil
  show ?case by simp
next
  case (Cons input_df requests)
  have "snd (run str_float input_df s) = s" by (rule run_state)
  with Cons show ?case
    by (simp add: split_beta Let_def)
qed

lemma run_try_unbound: "run_try str_float None input_df = Inl (NameError ''pipeline'')"
  by (simp add: run_try_def)

lemma run_try_transform_raises:
  "transform pm input_df = Inl e \<Longrightarrow> run_try str_float (Some pm) input_df = Inl e"
  by (simp add: run_try_def)

lemma run_try_collect_raises:
  "transform pm input_df = Inr score \<Longrightarrow> collect score = Inl e \<Longrightarrow>
   run_try str_float (Some pm) input_df = Inl e"
  by (simp add: run_try_def)

lemma run_try_collected:
  "transform pm input_df = Inr score \<Longrightarrow> collect score = Inr predictions \<Longrightarrow>
   run_try str_float (Some pm) input_df =
     Inr (comma_join (map (\<lambda>pred. str_float (prediction pred)) predictions))"
  by (simp add: run_try_def score_loop_comma_join)

lemma run_caught:
  "run_try str_float (pipeline s) input_df = Inl e \<Longrightarrow> isinstance_Exception e \<Longrightarrow>
   run str_float input_df s = (Returned (str_exn e), s)"
  by (simp add: run_def)

lemma run_response:
  "run_try str_float (pipeline s) input_df = Inr response \<Longrightarrow>
   run str_float input_df s = (Returned response, s)"
  by (simp add: run_def)

text \<open>The library's fitted pipeline on a table that has every trained column.\<close>

lemma fitted_transform_ok:
  assumes "set feature_cols \<subseteq> set (columns input_df)"
  shows "transform (fitted_pipeline lib_msg label_col feature_cols predictor) input_df =
     Inr \<lparr>collect = Inr (map (score_row label_col feature_cols predictor input_df) (rows input_df))\<rparr>"
proof -
  from assms have "filter (\<lambda>c. c \<notin> set (columns input_df)) feature_cols = []"
    by (auto simp: filter_empty_conv)
  then show ?thesis by (simp add: fitted_pipeline_def)
qed

lemma fitted_transform_missing:
  assumes "\<not> set feature_cols \<subseteq> set (columns input_df)"
  shows "\<exists>c. c \<in> set feature_cols \<and> c \<notin> set (columns input_df) \<and>
     transform (fitted_pipeline lib_msg label_col feature_cols predictor) input_df =
       Inl (PyExn True (lib_msg c))"
proof -
  from assms have "filter (\<lambda>c. c \<notin> set (columns input_df)) feature_cols \<noteq> []"
    by (auto simp: filter_empty_conv)
  then obtain c cs where found: "filter (\<lambda>c. c \<notin> set (columns input_df)) feature_cols = c # cs"
    by (cases "filter (\<lambda>c. c \<notin> set (columns input_df)) feature_cols") auto
  then have "c \<in> set (filter (\<lambda>c. c \<notin> set (columns input_df)) feature_cols)" by simp
  then have "c \<in> set feature_cols" "c \<notin> set (columns input_df)" by auto
  moreover from found
  have "transform (fitted_pipeline lib_msg label_col feature_cols predictor) input_df =
       Inl (PyExn True (lib_msg c))"
    by (simp add: fitted_pipeline_def)
  ultimately show ?thesis by blast
qed

lemma prediction_score_row:
  "prediction (score_row label_col feature_cols predictor table r) =
     predict_row feature_cols predictor table r"
  by (simp add: score_row_def)

lemma run_try_fitted:
  assumes "set feature_cols \<subseteq> set (columns input_df)"
  shows "run_try str_float (Some (fitted_pipeline lib_msg label_col feature_cols predictor)) input_df =
     Inr (comma_join (map (\<lambda>r. str_float (predict_row feature_cols predictor input_df r)) (rows input_df)))"
proof -
  have "run_try str_float (Some (fitted_pipeline lib_msg label_col feature_cols predictor)) input_df =
      Inr (comma_join (map (\<lambda>pred. str_float (prediction pred))
        (map (score_row label_col feature_cols predictor input_df) (rows input_df))))"
    by (rule run_try_collected [OF fitted_transform_ok [OF assms]]) simp
  then show ?thesis
    by (simp add: comp_def prediction_score_row)
qed

lemma run_fitted:
  assumes "pipeline s = Some (fitted_pipeline lib_msg label_col feature_cols predictor)"
    and "set feature_cols \<subseteq> set (columns input_df)"
  shows "run str_float input_df s =
     (Returned (comma_join (prediction_tokens str_float feature_cols predictor input_df)), s)"
  using assms by (simp add: run_response run_try_fitted prediction_tokens_def)

lemma prediction_tokens_numeric:
  "\<forall>x. numeric_token (str_float x) \<Longrightarrow>
   list_all numeric_token (prediction_tokens str_float feature_cols predictor input_df)"
  by (simp add: prediction_tokens_def list_all_iff)

lemma example_str_float_numeric: "\<forall>x. numeric_token (example_str_float x)"
  by (simp add: example_str_float_def numeric_token_def float_char_def)

lemma example_tokens:
  "prediction_tokens example_str_float [''RM''] example_predictor example_table = [''2.0'', ''4.0'']"
  by (simp add: prediction_tokens_def predict_row_def feature_vector_def row_dict_def columns_def
      example_table_def example_predictor_def example_str_float_def)

lemma str_NameError: "str_exn (NameError ''pipeline'') = ''name 'pipeline' is not defined''"
  by (simp add: NameError_def)

lemma isinstance_NameError: "isinstance_Exception (NameError global_name)"
  by (simp add: NameError_def)

lemma run_unbound:
  "pipeline s = None \<Longrightarrow> run str_float input_df s = (Returned (str_exn (NameError ''pipeline'')), s)"
  by (simp add: run_caught run_try_unbound isinstance_NameError)

section \<open>Properties of initialisation and persistence\<close>

lemma init_again: "init (snd (init s)) = init s"
  by (simp add: init_def split: sum.splits)

lemma init_after_save:
  "init (save_overwrite ''housing.model'' fitted s) =
     (Returned (), (save_overwrite ''housing.model'' fitted s)\<lparr>pipeline := Some fitted\<rparr>)"
  by (simp add: init_def save_overwrite_def)

lemma save_twice:
  "save_overwrite path latest (save_overwrite path earlier s) = save_overwrite path latest s"
  by (simp add: save_overwrite_def)

lemma run_outcome_pipeline:
  "pipeline s = pipeline s' \<Longrightarrow> fst (run str_float input_df s) = fst (run str_float input_df s')"
  by (simp add: run_def split: sum.splits)

section \<open>The sample input\<close>

lemma housing_columns_in_df: "set (map fst housing_schema) \<subseteq> set (columns df)"
  by (simp add: housing_schema_def df_def columns_def)

lemma init_loads:
  "files s ''housing.model'' = Inr fitted \<Longrightarrow> init s = (Returned (), s\<lparr>pipeline := Some fitted\<rparr>)"
  by (simp add: init_def)

lemma df_tokens:
  "prediction_tokens str_float feature_cols predictor df =
     [str_float (predict_row feature_cols predictor df (input_data ! 0)),
      str_float (predict_row feature_cols predictor df (input_data ! 1)),
      str_float (predict_row feature_cols predictor df (input_data ! 2))]"
  by (simp add: prediction_tokens_def df_def input_data_def)

lemma zn_str_float_numeric: "\<forall>x. numeric_token (zn_str_float x)"
  by (simp add: zn_str_float_def numeric_token_def float_char_def)

lemma zn_tokens:
  "prediction_tokens zn_str_float (map fst housing_schema) zn_predictor df = [''18.0'', ''59.0'', ''76.0'']"
  by (simp only: df_tokens)
    (simp add: predict_row_def feature_vector_def row_dict_def columns_def
      housing_schema_def df_def input_data_def zn_predictor_def zn_str_float_def)

text \<open>
  The feature vector of the first sample row under the housing columns: the cell of \<open>B\<close> is
  left out, and the cell the sample names \<open>LSTAT\<close> is its last value.
\<close>

lemma sample_feature_vector:
  "feature_vector (map fst housing_schema) (row_dict df (input_data ! 0)) =
     [Some (DoubleV 0.00632), Some (DoubleV 18.0), Some (DoubleV 2.31), Some (IntegerV 0),
      Some (DoubleV 0.538), Some (DoubleV 6.575), Some (DoubleV 65.2), Some (DoubleV 4.09),
      Some (IntegerV 1), Some (IntegerV 296), Some (DoubleV 15.3), Some (DoubleV 24.0)]"
  by (simp add: feature_vector_def row_dict_def columns_def housing_schema_def df_def input_data_def)

section \<open>Properties of the training stage\<close>

lemma fit_features:
  "''MEDV'' \<in> set (columns df2) \<Longrightarrow>
   fit lib_msg trainer df2 = Some (fitted_pipeline lib_msg ''MEDV'' (training_features df2) (trainer df2))"
  by (simp add: fit_def)

lemma training_features_subset: "set (training_features df2) \<subseteq> set (columns df2)"
  by (auto simp: training_features_def)

lemma label_score_row:
  "label (score_row ''MEDV'' feature_cols predictor df2 r) = target_value df2 r"
  by (simp add: score_row_def target_value_def)

lemma predictions_score_rows:
  "map prediction (map (score_row label_col feature_cols predictor df2) rs) =
     map (predict_row feature_cols predictor df2) rs"
  by (induction rs) (simp_all add: prediction_score_row)

lemma labels_score_rows:
  "map label (map (score_row ''MEDV'' feature_cols predictor df2) rs) = map (target_value df2) rs"
  by (induction rs) (simp_all add: label_score_row)

lemma evaluate_fitted:
  "evaluate \<lparr>collect = Inr (map (score_row ''MEDV'' feature_cols predictor df2) (rows df2))\<rparr> =
     (case those (map (target_value df2) (rows df2)) of
        None \<Rightarrow> None
      | Some actual \<Rightarrow> r2 (zip (map (predict_row feature_cols predictor df2) (rows df2)) actual))"
  by (simp only: evaluate_def scored_frame.simps sum.case labels_score_rows predictions_score_rows)

lemma example_training_values:
  "those (map (target_value example_training_table) (rows example_training_table)) = Some [3, 4, 8]"
  by (simp add: target_value_def row_dict_def columns_def example_training_table_def)

lemma example_training_predictions:
  "map (predict_row (training_features example_training_table) (example_trainer example_training_table)
      example_training_table) (rows example_training_table) = [2, 4, 6]"
  by (simp add: predict_row_def feature_vector_def training_features_def row_dict_def columns_def
      example_training_table_def example_trainer_def example_predictor_def)

lemma example_r2: "r2 [(2, 3), (4, 4), (6, 8)] = Some (9 / 14)"
  by (simp add: r2_def Let_def power2_eq_square)

section \<open>Properties of schema generation\<close>

lemma length_drop_column:
  "length (schema (drop_column c table)) = length (filter (\<lambda>n. n \<noteq> c) (columns table))"
  by (simp add: drop_column_def columns_def filter_map comp_def case_prod_unfold)

lemma columns_drop_column:
  "columns (drop_column c table) = filter (\<lambda>n. n \<noteq> c) (columns table)"
  by (simp add: drop_column_def columns_def filter_map comp_def case_prod_unfold)

lemma schema_of_fields:
  assumes "j < length (schema sample)"
  shows "internal_fields (schema_of sample) ! j =
     \<lparr>metadata = [], name = fst (schema sample ! j), nullable = snd (snd (schema sample ! j)),
      type = type_name (fst (snd (schema sample ! j)))\<rparr>"
  using assms by (simp add: schema_of_def case_prod_unfold)

lemma schema_of_properties:
  assumes "j < length (schema sample)"
  shows "swagger_properties (schema_of sample) ! j =
     (fst (schema sample ! j), swagger_of (fst (snd (schema sample ! j))))"
  using assms by (simp add: schema_of_def case_prod_unfold)

lemma schema_of_example_count:
  "length (swagger_example (schema_of sample)) = min 3 (length (rows sample))"
  by (simp add: schema_of_def min.commute)

lemma schema_of_example_row:
  assumes "i < min 3 (length (rows sample))"
  shows "swagger_example (schema_of sample) ! i = zip (map fst (schema sample)) (rows sample ! i)"
  using assms by (simp add: schema_of_def row_dict_def columns_def)

lemma schema_of_example_cell:
  assumes "i < min 3 (length (rows sample))"
    and "j < min (length (schema sample)) (length (rows sample ! i))"
  shows "swagger_example (schema_of sample) ! i ! j = (fst (schema sample ! j), rows sample ! i ! j)"
  using assms by (simp add: schema_of_example_row)

lemma housing_table_sample:
  "drop_column ''MEDV'' housing_table =
     \<lparr>schema = housing_schema, rows = map butlast (rows housing_table)\<rparr>"
  by (simp add: drop_column_def housing_table_def housing_schema_def housing_head_def
      row_dict_def columns_def)

lemma recorded_schema_reproduced:
  "schema_of (drop_column ''MEDV'' housing_table) = recorded_schema"
  by (simp add: housing_table_sample)
    (simp add: schema_of_def recorded_schema_def housing_table_def housing_schema_def
      housing_head_def row_dict_def columns_def)

section \<open>The claims\<close>

text \<open>
  C1. For every input table whose columns are exactly the trained feature columns, the
  request handler \<open>run\<close> returns a string that consists of exactly one numeric prediction
  token per input row, joined by commas, in input row order, with no trailing comma. The
  pipeline is the library's fitted pipeline, and \<open>str\<close> on a float is taken to give a
  numeric token, as Python's does. The response is the comma join of the rendered
  predictions of the rows; there are as many tokens as rows, the i-th token is the
  rendering of the prediction of the i-th row, splitting the response at its commas gives
  the tokens back, and the response does not end in a comma.
\<close>

theorem run_one_token_per_row:
  assumes loaded: "pipeline s = Some (fitted_pipeline lib_msg label_col feature_cols predictor)"
    and exact: "set (columns input_df) = set feature_cols"
    and numeric: "\<forall>x. numeric_token (str_float x)"
  shows "run str_float input_df s =
       (Returned (comma_join (prediction_tokens str_float feature_cols predictor input_df)), s)
     \<and> length (prediction_tokens str_float feature_cols predictor input_df) = length (rows input_df)
     \<and> (\<forall>i < length (rows input_df).
          prediction_tokens str_float feature_cols predictor input_df ! i =
            str_float (predict_row feature_cols predictor input_df (rows input_df ! i)))
     \<and> list_all numeric_token (prediction_tokens str_float feature_cols predictor input_df)
     \<and> tokens_of (comma_join (prediction_tokens str_float feature_cols predictor input_df)) =
          prediction_tokens str_float feature_cols predictor input_df
     \<and> (comma_join (prediction_tokens str_float feature_cols predictor input_df) = []
          \<or> last (comma_join (prediction_tokens str_float feature_cols predictor input_df)) \<noteq> CHR '','')"
proof -
  from exact have "set feature_cols \<subseteq> set (columns input_df)" by simp
  with loaded have "run str_float input_df s =
       (Returned (comma_join (prediction_tokens str_float feature_cols predictor input_df)), s)"
    by (rule run_fitted)
  moreover have "length (prediction_tokens str_float feature_cols predictor input_df) = length (rows input_df)"
    by (simp add: prediction_tokens_def)
  moreover have "\<forall>i < length (rows input_df).
          prediction_tokens str_float feature_cols predictor input_df ! i =
            str_float (predict_row feature_cols predictor input_df (rows input_df ! i))"
    by (simp add: prediction_tokens_def)
  moreover from numeric
  have all_numeric: "list_all numeric_token (prediction_tokens str_float feature_cols predictor input_df)"
    by (rule prediction_tokens_numeric)
  moreover from all_numeric
  have "tokens_of (comma_join (prediction_tokens str_float feature_cols predictor input_df)) =
          prediction_tokens str_float feature_cols predictor input_df"
    by (rule tokens_of_comma_join)
  moreover from all_numeric
  have "comma_join (prediction_tokens str_float feature_cols predictor input_df) = []
          \<or> last (comma_join (prediction_tokens str_float feature_cols predictor input_df)) \<noteq> CHR '',''"
    by (rule no_trailing_comma)
  ultimately show ?thesis by blast
qed

theorem run_one_token_per_row_witness:
  "run example_str_float example_table example_state = (Returned ''2.0,4.0'', example_state)
   \<and> tokens_of ''2.0,4.0'' = [''2.0'', ''4.0'']"
proof -
  have loaded: "pipeline example_state =
      Some (fitted_pipeline example_msg ''MEDV'' [''RM''] example_predictor)"
    by (simp add: example_state_def example_pipeline_def)
  have exact: "set (columns example_table) = set [''RM'']"
    by (simp add: example_table_def columns_def)
  show ?thesis
    using run_one_token_per_row [OF loaded exact example_str_float_numeric]
    by (simp add: example_tokens)
qed

text \<open>
  C2. Whenever the pipeline's transform or the collection of the predictions raises an
  exception, \<open>run\<close> catches it and returns its string representation as the ordinary
  response value; the exception does not leave \<open>run\<close>. An exception is an instance of
  Python's class \<open>Exception\<close>, the class the handler's \<open>except\<close> clause names and the
  one every error class of the library derives from. In particular, on a table that lacks
  a trained feature column the library's fitted pipeline raises, and \<open>run\<close> returns the
  text of that error.
\<close>

theorem run_transform_or_collect_raises:
  "(pipeline s = Some pm
      \<and> (transform pm input_df = Inl e
          \<or> (\<exists>score. transform pm input_df = Inr score \<and> collect score = Inl e))
      \<and> isinstance_Exception e
     \<longrightarrow> run str_float input_df s = (Returned (str_exn e), s))
   \<and> (pipeline s = Some (fitted_pipeline lib_msg label_col feature_cols predictor)
      \<and> \<not> set feature_cols \<subseteq> set (columns input_df)
     \<longrightarrow> (\<exists>c. c \<in> set feature_cols \<and> c \<notin> set (columns input_df)
          \<and> run str_float input_df s = (Returned (lib_msg c), s)))"
proof (intro conjI impI)
  assume raised: "pipeline s = Some pm
      \<and> (transform pm input_df = Inl e
          \<or> (\<exists>score. transform pm input_df = Inr score \<and> collect score = Inl e))
      \<and> isinstance_Exception e"
  then have "run_try str_float (Some pm) input_df = Inl e"
    by (auto simp: run_try_transform_raises run_try_collect_raises)
  with raised show "run str_float input_df s = (Returned (str_exn e), s)"
    by (simp add: run_caught)
next
  assume missing: "pipeline s = Some (fitted_pipeline lib_msg label_col feature_cols predictor)
      \<and> \<not> set feature_cols \<subseteq> set (columns input_df)"
  then obtain c where c: "c \<in> set feature_cols" "c \<notin> set (columns input_df)"
    and raised: "transform (fitted_pipeline lib_msg label_col feature_cols predictor) input_df =
       Inl (PyExn True (lib_msg c))"
    using fitted_transform_missing by blast
  from raised
  have "run_try str_float (Some (fitted_pipeline lib_msg label_col feature_cols predictor)) input_df =
      Inl (PyExn True (lib_msg c))"
    by (rule run_try_transform_raises)
  with missing have "run str_float input_df s = (Returned (lib_msg c), s)"
    by (simp add: run_caught)
  with c show "\<exists>c. c \<in> set feature_cols \<and> c \<notin> set (columns input_df)
          \<and> run str_float input_df s = (Returned (lib_msg c), s)"
    by blast
qed

theorem run_transform_or_collect_raises_witness:
  "run example_str_float example_table \<lparr>pipeline = Some example_failing, files = no_files\<rparr> =
     (Returned ''job aborted'', \<lparr>pipeline = Some example_failing, files = no_files\<rparr>)
   \<and> run example_str_float example_other example_state = (Returned ''no field RM'', example_state)"
proof -
  have collect_raises: "transform example_failing example_table = Inr \<lparr>collect = Inl (PyExn True ''job aborted'')\<rparr>"
    by (simp add: example_failing_def example_table_def)
  have missing: "\<not> set [''RM''] \<subseteq> set (columns example_other)"
    by (simp add: example_other_def columns_def)
  from run_transform_or_collect_raises
    [of "\<lparr>pipeline = Some example_failing, files = no_files\<rparr>" example_failing example_table
      "PyExn True ''job aborted''" example_str_float example_msg "''MEDV''" "[''RM'']"
      example_predictor]
  have first: "run example_str_float example_table \<lparr>pipeline = Some example_failing, files = no_files\<rparr> =
     (Returned ''job aborted'', \<lparr>pipeline = Some example_failing, files = no_files\<rparr>)"
    by (simp add: collect_raises)
  from run_transform_or_collect_raises
    [of example_state example_failing example_other "PyExn True ''job aborted''" example_str_float
      example_msg "''MEDV''" "[''RM'']" example_predictor]
  have "run example_str_float example_other example_state = (Returned ''no field RM'', example_state)"
    using missing by (auto simp: example_state_def example_pipeline_def example_msg_def)
  with first show ?thesis by simp
qed

text \<open>
  C7. On the notebook's three-row sample input \<open>df\<close>, after \<open>init\<close> has loaded a persisted
  pipeline that was fitted on the feature columns of the housing table, \<open>run\<close> returns a
  string of exactly three numeric tokens separated by commas: the renderings of the
  predictions of the three rows. (The sample has a column \<open>B\<close> beyond the trained ones.)
\<close>

theorem run_sample_three_tokens:
  assumes saved: "files s ''housing.model'' =
      Inr (fitted_pipeline lib_msg label_col (map fst housing_schema) predictor)"
    and numeric: "\<forall>x. numeric_token (str_float x)"
  shows "\<exists>t1 t2 t3.
      run str_float df (snd (init s)) = (Returned (t1 @ '','' @ t2 @ '','' @ t3), snd (init s))
      \<and> [t1, t2, t3] = prediction_tokens str_float (map fst housing_schema) predictor df
      \<and> numeric_token t1 \<and> numeric_token t2 \<and> numeric_token t3
      \<and> tokens_of (t1 @ '','' @ t2 @ '','' @ t3) = [t1, t2, t3]"
proof -
  let ?tokens = "prediction_tokens str_float (map fst housing_schema) predictor df"
  obtain t1 t2 t3 where tokens: "?tokens = [t1, t2, t3]"
    by (simp add: df_tokens)
  from saved have "pipeline (snd (init s)) =
      Some (fitted_pipeline lib_msg label_col (map fst housing_schema) predictor)"
    by (simp add: init_loads)
  then have "run str_float df (snd (init s)) = (Returned (comma_join ?tokens), snd (init s))"
    using housing_columns_in_df by (rule run_fitted)
  with tokens have returned:
    "run str_float df (snd (init s)) = (Returned (t1 @ '','' @ t2 @ '','' @ t3), snd (init s))"
    by simp
  from numeric have all_numeric: "list_all numeric_token ?tokens"
    by (rule prediction_tokens_numeric)
  with tokens have each: "numeric_token t1" "numeric_token t2" "numeric_token t3"
    by simp_all
  from all_numeric have "tokens_of (comma_join ?tokens) = ?tokens"
    by (rule tokens_of_comma_join)
  with tokens have "tokens_of (t1 @ '','' @ t2 @ '','' @ t3) = [t1, t2, t3]"
    by simp
  with returned tokens each show ?thesis by metis
qed

theorem run_sample_three_tokens_witness:
  "run zn_str_float df (snd (init housing_state)) = (Returned ''18.0,59.0,76.0'', snd (init housing_state))"
proof -
  have saved: "files housing_state ''housing.model'' =
      Inr (fitted_pipeline example_msg ''MEDV'' (map fst housing_schema) zn_predictor)"
    by (simp add: housing_state_def save_overwrite_def)
  from run_sample_three_tokens [OF saved zn_str_float_numeric] show ?thesis
    by (auto simp: zn_tokens)
qed

text \<open>
  C8. When \<open>run\<close> is called before \<open>init\<close> ever was, the global \<open>pipeline\<close> is unbound:
  reading it raises \<open>NameError\<close>, an instance of \<open>Exception\<close>, which the handler catches,
  and \<open>run\<close> returns its string representation for every input table.
\<close>

theorem run_before_init:
  assumes "pipeline s = None"
  shows "run_try str_float (pipeline s) input_df = Inl (NameError ''pipeline'')
     \<and> isinstance_Exception (NameError ''pipeline'')
     \<and> run str_float input_df s = (Returned ''name 'pipeline' is not defined'', s)"
  using assms by (simp add: run_try_unbound isinstance_NameError run_unbound str_NameError)

theorem run_before_init_witness:
  "run example_str_float example_table unbound_state =
     (Returned ''name 'pipeline' is not defined'', unbound_state)"
proof -
  have "pipeline unbound_state = None" by (simp add: unbound_state_def)
  from run_before_init [OF this] show ?thesis by simp
qed

text \<open>
  C9. On an input table with no rows (and the trained feature columns) \<open>run\<close> returns the
  empty string, the response of no token: the loop adds nothing to the empty response and
  the slice that drops the last character leaves it empty. This holds for any pipeline
  whose transform and collect succeed with no row, and for the library's fitted pipeline
  on a table without rows that has the trained columns.
\<close>

theorem run_zero_rows:
  "(pipeline s = Some pm \<and> transform pm input_df = Inr score \<and> collect score = Inr []
     \<longrightarrow> run str_float input_df s = (Returned '''', s))
   \<and> (pipeline s = Some (fitted_pipeline lib_msg label_col feature_cols predictor)
      \<and> set feature_cols \<subseteq> set (columns input_df) \<and> rows input_df = []
     \<longrightarrow> run str_float input_df s = (Returned '''', s))
   \<and> butlast (score_loop str_float [] '''') = ''''
   \<and> tokens_of '''' = []"
proof (intro conjI impI)
  assume "pipeline s = Some pm \<and> transform pm input_df = Inr score \<and> collect score = Inr []"
  then have "run_try str_float (pipeline s) input_df = Inr ''''"
    by (simp add: run_try_collected)
  then show "run str_float input_df s = (Returned '''', s)"
    by (rule run_response)
next
  assume "pipeline s = Some (fitted_pipeline lib_msg label_col feature_cols predictor)
      \<and> set feature_cols \<subseteq> set (columns input_df) \<and> rows input_df = []"
  then show "run str_float input_df s = (Returned '''', s)"
    by (simp add: run_fitted prediction_tokens_def)
next
  show "butlast (score_loop str_float [] '''') = ''''" by simp
next
  show "tokens_of '''' = []" by (simp add: tokens_of_def)
qed

theorem run_zero_rows_witness:
  "run example_str_float example_empty example_state = (Returned '''', example_state)"
proof -
  have loaded: "pipeline example_state =
      Some (fitted_pipeline example_msg ''MEDV'' [''RM''] example_predictor)"
    by (simp add: example_state_def example_pipeline_def)
  have valid: "set [''RM''] \<subseteq> set (columns example_empty)"
    by (simp add: example_empty_def columns_def)
  have empty: "rows example_empty = []"
    by (simp add: example_empty_def)
  have ok: "transform (fitted_pipeline example_msg ''MEDV'' [''RM''] example_predictor) example_empty
      = Inr \<lparr>collect = Inr []\<rparr>"
    using fitted_transform_ok [OF valid] by (simp add: empty)
  from run_zero_rows
    [of example_state "fitted_pipeline example_msg ''MEDV'' [''RM''] example_predictor"
      example_empty "\<lparr>collect = Inr []\<rparr>" example_str_float example_msg "''MEDV''"
      "[''RM'']" example_predictor]
  show ?thesis
    using loaded valid empty ok by simp
qed

text \<open>
  C10. \<open>run\<close> never writes the state of the process: a call leaves the state it was made
  in, and so does any sequence of calls; after \<open>init\<close> and any sequence of calls the global
  \<open>pipeline\<close> is the one \<open>init\<close> left, and the persisted artifacts are the ones before.
  (The input table is a value here and cannot change.)
\<close>

theorem run_leaves_state:
  "snd (run str_float input_df s) = s
   \<and> snd (run_all str_float requests s) = s
   \<and> pipeline (snd (run_all str_float requests (snd (init s)))) = pipeline (snd (init s))
   \<and> files (snd (run_all str_float requests (snd (init s)))) = files s"
proof -
  have "files (snd (init s)) = files s"
    by (simp add: init_def split: sum.splits)
  then show ?thesis
    by (simp add: run_state run_all_state)
qed

text \<open>
  C5. Calling \<open>init\<close> twice in succession leaves what \<open>run\<close> does unchanged: the second
  call returns what the first did and leaves the same state, and \<open>run\<close> after two calls of
  \<open>init\<close> gives, on every input table, what it gives after one.
\<close>

theorem init_idempotent:
  "init (snd (init s)) = init s
   \<and> run str_float input_df (snd (init (snd (init s)))) = run str_float input_df (snd (init s))"
  by (simp add: init_again)

text \<open>
  C3. Saving a fitted pipeline to a location that holds an earlier one replaces the
  earlier contents: the state is the one that saving the latest pipeline alone gives. A
  following \<open>init\<close> succeeds and loads the latest pipeline, and \<open>run\<close> then gives, on every
  input table, the response of scoring with the latest pipeline.
\<close>

theorem save_overwrites_load_latest:
  "save_overwrite path latest (save_overwrite path earlier s) = save_overwrite path latest s
   \<and> fst (init (save_overwrite ''housing.model'' latest (save_overwrite ''housing.model'' earlier s))) =
       Returned ()
   \<and> pipeline (snd (init (save_overwrite ''housing.model'' latest (save_overwrite ''housing.model'' earlier s)))) =
       Some latest
   \<and> fst (run str_float input_df
       (snd (init (save_overwrite ''housing.model'' latest (save_overwrite ''housing.model'' earlier s))))) =
     fst (run str_float input_df (s\<lparr>pipeline := Some latest\<rparr>))"
proof -
  have "fst (run str_float input_df
       (snd (init (save_overwrite ''housing.model'' latest s)))) =
     fst (run str_float input_df (s\<lparr>pipeline := Some latest\<rparr>))"
    by (rule run_outcome_pipeline) (simp add: init_after_save)
  then show ?thesis
    by (simp add: save_twice init_after_save)
qed

text \<open>
  C6. The evaluation score of the training stage is the coefficient of determination of
  the predictions that the fitted pipeline gives on the rows of the very table it was
  fitted on, against the target values \<open>MEDV\<close> of those rows: every row of the training
  table takes part, and no other table does. The stage gives no score exactly where the
  table lacks the target column or the metric is no number.
\<close>

theorem training_score_on_training_table:
  "training_stage lib_msg trainer df2 =
     (if ''MEDV'' \<in> set (columns df2) then
        (case those (map (target_value df2) (rows df2)) of
           None \<Rightarrow> None
         | Some actual \<Rightarrow>
             map_option (Pair (fitted_pipeline lib_msg ''MEDV'' (training_features df2) (trainer df2)))
               (r2 (zip (map (predict_row (training_features df2) (trainer df2) df2) (rows df2)) actual)))
      else None)"
proof (cases "''MEDV'' \<in> set (columns df2)")
  case True
  have "transform (fitted_pipeline lib_msg ''MEDV'' (training_features df2) (trainer df2)) df2 =
      Inr \<lparr>collect = Inr (map (score_row ''MEDV'' (training_features df2) (trainer df2) df2) (rows df2))\<rparr>"
    using training_features_subset by (rule fitted_transform_ok)
  with True show ?thesis
    by (simp add: training_stage_def fit_features evaluate_fitted split: option.splits)
next
  case False
  then show ?thesis
    by (simp add: training_stage_def fit_def)
qed

theorem training_score_on_training_table_witness:
  "training_stage example_msg example_trainer example_training_table =
     Some (fitted_pipeline example_msg ''MEDV'' [''RM''] example_predictor, 9 / 14)"
proof -
  have "''MEDV'' \<in> set (columns example_training_table)"
    by (simp add: columns_def example_training_table_def)
  moreover have "training_features example_training_table = [''RM'']"
    by (simp add: training_features_def columns_def example_training_table_def)
  ultimately show ?thesis
    using training_score_on_training_table
      [of example_msg example_trainer example_training_table]
      example_training_predictions
    by (simp add: example_training_values example_r2 example_trainer_def)
qed

text \<open>
  C4, as amended. For a sample input with N columns, schema generation gives a structural
  field list of length N that names the columns in order, each with the name of its type
  and its nullability, and a swagger property list with exactly one entry per column, in
  which a double column has type number and format double and an integer column has
  type integer and format int32. The swagger example list holds the first three rows of
  the sample, each as the cells of the row under the column names, in row order; it holds
  all rows of a sample of at most three rows. For the notebook's sample input, the
  training table without \<open>MEDV\<close>, the columns are the other columns of the table.
\<close>

theorem generate_schema_views:
  "generate_schema [(parameter, sample)] = [(parameter, schema_of sample)]
   \<and> length (internal_fields (schema_of sample)) = length (schema sample)
   \<and> length (swagger_properties (schema_of sample)) = length (schema sample)
   \<and> (\<forall>j < length (schema sample).
        name (internal_fields (schema_of sample) ! j) = fst (schema sample ! j)
        \<and> nullable (internal_fields (schema_of sample) ! j) = snd (snd (schema sample ! j))
        \<and> fst (swagger_properties (schema_of sample) ! j) = fst (schema sample ! j)
        \<and> (fst (snd (schema sample ! j)) = DoubleType \<longrightarrow>
             type (internal_fields (schema_of sample) ! j) = ''double''
             \<and> snd (swagger_properties (schema_of sample) ! j) =
                 \<lparr>format = ''double'', property_type = ''number''\<rparr>)
        \<and> (fst (snd (schema sample ! j)) = IntegerType \<longrightarrow>
             type (internal_fields (schema_of sample) ! j) = ''integer''
             \<and> snd (swagger_properties (schema_of sample) ! j) =
                 \<lparr>format = ''int32'', property_type = ''integer''\<rparr>))
   \<and> length (swagger_example (schema_of sample)) = min 3 (length (rows sample))
   \<and> (\<forall>i < min 3 (length (rows sample)).
        length (swagger_example (schema_of sample) ! i) =
          min (length (schema sample)) (length (rows sample ! i))
        \<and> (\<forall>j < min (length (schema sample)) (length (rows sample ! i)).
             swagger_example (schema_of sample) ! i ! j =
               (fst (schema sample ! j), rows sample ! i ! j)))
   \<and> (length (rows sample) \<le> 3 \<longrightarrow>
        length (swagger_example (schema_of sample)) = length (rows sample))
   \<and> generate_schema (inputs df2) = [(''input_df'', schema_of (drop_column ''MEDV'' df2))]
   \<and> columns (drop_column ''MEDV'' df2) = filter (\<lambda>c. c \<noteq> ''MEDV'') (columns df2)
   \<and> length (internal_fields (schema_of (drop_column ''MEDV'' df2))) =
       length (filter (\<lambda>c. c \<noteq> ''MEDV'') (columns df2))"
proof -
  have generated: "generate_schema [(parameter, sample)] = [(parameter, schema_of sample)]"
    by (simp add: generate_schema_def)
  have fields: "length (internal_fields (schema_of sample)) = length (schema sample)"
    and properties: "length (swagger_properties (schema_of sample)) = length (schema sample)"
    by (simp_all add: schema_of_def)
  have columns: "\<forall>j < length (schema sample).
        name (internal_fields (schema_of sample) ! j) = fst (schema sample ! j)
        \<and> nullable (internal_fields (schema_of sample) ! j) = snd (snd (schema sample ! j))
        \<and> fst (swagger_properties (schema_of sample) ! j) = fst (schema sample ! j)
        \<and> (fst (snd (schema sample ! j)) = DoubleType \<longrightarrow>
             type (internal_fields (schema_of sample) ! j) = ''double''
             \<and> snd (swagger_properties (schema_of sample) ! j) =
                 \<lparr>format = ''double'', property_type = ''number''\<rparr>)
        \<and> (fst (snd (schema sample ! j)) = IntegerType \<longrightarrow>
             type (internal_fields (schema_of sample) ! j) = ''integer''
             \<and> snd (swagger_properties (schema_of sample) ! j) =
                 \<lparr>format = ''int32'', property_type = ''integer''\<rparr>)"
    by (simp add: schema_of_fields schema_of_properties)
  have examples: "\<forall>i < min 3 (length (rows sample)).
        length (swagger_example (schema_of sample) ! i) =
          min (length (schema sample)) (length (rows sample ! i))
        \<and> (\<forall>j < min (length (schema sample)) (length (rows sample ! i)).
             swagger_example (schema_of sample) ! i ! j =
               (fst (schema sample ! j), rows sample ! i ! j))"
    by (simp add: schema_of_example_row)
  have few: "length (rows sample) \<le> 3 \<longrightarrow>
        length (swagger_example (schema_of sample)) = length (rows sample)"
    by (simp add: schema_of_example_count)
  have notebook: "generate_schema (inputs df2) = [(''input_df'', schema_of (drop_column ''MEDV'' df2))]"
    by (simp add: generate_schema_def inputs_def)
  have dropped: "length (internal_fields (schema_of (drop_column ''MEDV'' df2))) =
       length (filter (\<lambda>c. c \<noteq> ''MEDV'') (columns df2))"
    by (simp add: schema_of_def length_drop_column)
  from generated fields properties columns schema_of_example_count examples few notebook
    columns_drop_column dropped
  show ?thesis by blast
qed

text \<open>
  On a training table of five rows whose first three are the recorded ones, the document
  generated for the notebook's sample input is the notebook's recorded output: twelve
  fields, twelve properties and three examples.
\<close>

theorem generate_schema_views_witness:
  "generate_schema (inputs housing_table) = [(''input_df'', recorded_schema)]
   \<and> length (rows (drop_column ''MEDV'' housing_table)) = 5
   \<and> length (internal_fields recorded_schema) = 12
   \<and> length (swagger_example recorded_schema) = 3
   \<and> swagger_properties recorded_schema ! 3 =
       (''CHAS'', \<lparr>format = ''int32'', property_type = ''integer''\<rparr>)
   \<and> swagger_example recorded_schema ! 2 ! 5 = (''RM'', DoubleV 7.185)"
proof -
  let ?sample = "drop_column ''MEDV'' housing_table"
  have shape: "length (schema ?sample) = 12" "length (rows ?sample) = 5"
    "schema ?sample ! 3 = (''CHAS'', IntegerType, True)"
    "schema ?sample ! 5 = (''RM'', DoubleType, True)"
    "length (rows ?sample ! 2) = 12" "rows ?sample ! 2 ! 5 = DoubleV 7.185"
    by (simp_all only: housing_table_sample)
      (simp_all add: housing_schema_def housing_table_def housing_head_def)
  note views = generate_schema_views [of "''input_df''" ?sample housing_table]
  from views have "generate_schema (inputs housing_table) = [(''input_df'', schema_of ?sample)]"
    by blast
  moreover from views shape have "length (internal_fields (schema_of ?sample)) = 12"
    by simp
  moreover from views shape have "length (swagger_example (schema_of ?sample)) = 3"
    by simp
  moreover from views have "\<forall>j < length (schema ?sample).
      fst (swagger_properties (schema_of ?sample) ! j) = fst (schema ?sample ! j)
      \<and> (fst (snd (schema ?sample ! j)) = IntegerType \<longrightarrow>
           snd (swagger_properties (schema_of ?sample) ! j) =
             \<lparr>format = ''int32'', property_type = ''integer''\<rparr>)"
    by blast
  with shape have "swagger_properties (schema_of ?sample) ! 3 =
       (''CHAS'', \<lparr>format = ''int32'', property_type = ''integer''\<rparr>)"
    by (simp add: prod_eq_iff)
  moreover from views have "\<forall>i < min 3 (length (rows ?sample)).
      \<forall>j < min (length (schema ?sample)) (length (rows ?sample ! i)).
        swagger_example (schema_of ?sample) ! i ! j = (fst (schema ?sample ! j), rows ?sample ! i ! j)"
    by blast
  with shape have "swagger_example (schema_of ?sample) ! 2 ! 5 = (''RM'', DoubleV 7.185)"
    by simp
  ultimately show ?thesis
    using shape(2) by (simp only: recorded_schema_reproduced)
qed

text \<open>
  The example list does not hold every row of a sample of more than three rows: the fourth
  row of a sample of four rows is not among the examples.
\<close>

theorem generate_schema_examples_counterexample:
  "[DoubleV 4] \<in> set (rows four_rows)
   \<and> row_dict four_rows [DoubleV 4] = [(''RM'', DoubleV 4)]
   \<and> [(''RM'', DoubleV 4)] \<notin> set (swagger_example (schema_of four_rows))
   \<and> length (rows four_rows) = 4
   \<and> swagger_example (schema_of four_rows) =
       [[(''RM'', DoubleV 1)], [(''RM'', DoubleV 2)], [(''RM'', DoubleV 3)]]"
  by (simp add: four_rows_def schema_of_def row_dict_def columns_def)

end
